theory Spec2Isabelle
  imports Main
begin

section \<open>Constants of the configuration module\<close>

text \<open>
  The query modules import \<open>NUMBER_ALL_STYLES\<close>, \<open>TATTOO_TYPE_MONOCHROME\<close> and
  \<open>TATTOO_TYPE_COLOR\<close> from \<open>config_data.config\<close>, which is not among the sources.
\<close>

text \<open>Modelled from the spec: the reserved wildcard style id of \<open>config_data.config\<close>
  (the docstring of \<open>validate_style_ids\<close> gives its value as 0).\<close>
definition NUMBER_ALL_STYLES :: int where
  "NUMBER_ALL_STYLES = 0"

text \<open>Modelled from the spec: the tattoo-type token Monochrome of \<open>config_data.config\<close>;
  only its being different from the other two tokens matters.\<close>
definition TATTOO_TYPE_MONOCHROME :: string where
  "TATTOO_TYPE_MONOCHROME = ''Monochrome''"

text \<open>Modelled from the spec: the tattoo-type token Color of \<open>config_data.config\<close>.\<close>
definition TATTOO_TYPE_COLOR :: string where
  "TATTOO_TYPE_COLOR = ''Color''"

text \<open>Modelled from the spec: the tattoo-type token Both of the data model; the query
  module never names it, it is one of the strings that are neither of the two above.\<close>
definition TATTOO_TYPE_BOTH :: string where
  "TATTOO_TYPE_BOTH = ''Both''"


section \<open>Tables (\<open>models.py\<close>)\<close>

text \<open>
  Each table is the list of its rows. Only the columns that the ranking queries and
  \<open>create_like\<close> read are kept. Ids are integers within the range of \<open>BigInteger\<close>, the type
  of the id columns. Timestamps are microseconds as integers.
\<close>

record master =
  master_id :: int
  name :: string
  city :: string
  about_master :: string
  tattoo_type :: string
  date_of_reg :: int
  is_blocked :: bool

record client =
  client_id :: int
  client_name :: string
  client_city :: string
  client_tattoo_type :: string

record database =
  master_table :: "master list"
  client_table :: "client list"
  likes_table :: "(int \<times> int) list"          \<comment> \<open>\<open>(client_id, master_id)\<close>\<close>
  client_styles_table :: "(int \<times> int) list"  \<comment> \<open>\<open>(client_id, style_id)\<close>\<close>
  master_styles_table :: "(int \<times> int) list"  \<comment> \<open>\<open>(master_id, style_id)\<close>\<close>
  styles_table :: "(int \<times> string) list"      \<comment> \<open>\<open>(style_id, style_name)\<close>\<close>
  master_photos_table :: "(int \<times> string) list" \<comment> \<open>\<open>(master_id, photo_path)\<close>\<close>
  group_emit :: "int \<Rightarrow> int"
  agg_emit :: "string \<Rightarrow> int"

text \<open>
  The last two fields are not tables. Where a query fixes no order, the rows come in an
  order that the store chooses (a hash aggregation emits its groups in the order of its
  hash table, a join in the order of its plan), and that order belongs to the store
  like its rows:
  \<^item> \<open>group_emit k\<close> is the rank in which a query grouped by master emits the group of the
    master id \<open>k\<close>, before any \<open>ORDER BY\<close> of the query is applied;
  \<^item> \<open>agg_emit s\<close> is the rank in which \<open>string_agg\<close> receives the string \<open>s\<close> among the rows
    of one group.
  Both are arbitrary functions, so every order of the groups and every order inside a
  group is the order of some store; rows of equal rank stay in the order of the table.
\<close>

text \<open>The dictionary that the ranking functions build for one master.\<close>

record master_dict =
  d_master_id :: int
  d_name :: string
  d_city :: string
  d_about_master :: string
  d_styles :: "string list"
  d_photo_path :: "string list"
  d_likes :: int

text \<open>
  Every query function wraps its body in \<open>try: ... except Exception\<close>, logs the exception
  and falls off its end, so the caller receives Python's \<open>None\<close>. \<open>Inl e\<close> is that outcome,
  with the exception that was caught; \<open>Inr v\<close> is the returned value.
\<close>

datatype py_error = ZeroDivisionError | UnboundLocalError | KeyError | IndexError | ValueError


section \<open>Compatibility filter\<close>

text \<open>
  \<open>filter_type\<close> is the list of conditions on \<open>Master.tattoo_type\<close> that the tier functions
  derive from the client's tattoo type; here as the predicate on the master's tattoo type
  that their conjunction is (the empty list is no condition).
\<close>

definition filter_type :: "string \<Rightarrow> string \<Rightarrow> bool" where
  "filter_type client_type master_type =
     (if client_type = TATTOO_TYPE_MONOCHROME then master_type \<noteq> TATTOO_TYPE_COLOR
      else if client_type = TATTOO_TYPE_COLOR then master_type \<noteq> TATTOO_TYPE_MONOCHROME
      else True)"


section \<open>The client lookup\<close>

type_synonym client_info = "int \<times> string \<times> string \<times> string \<times> int list"

text \<open>
  \<open>get_client_info_and_styles\<close>: the inner join of \<open>Client\<close> with \<open>ClientStyles\<close>, restricted
  to the client id, grouped by the client's columns; \<open>fetchone\<close> takes the first group, and
  \<open>array_agg\<close> collects the style ids of that group. No row: the function returns \<open>[]\<close>,
  which the callers test with \<open>not client\<close>; that is \<open>None\<close> here.
\<close>

definition client_join :: "database \<Rightarrow> int \<Rightarrow> (client \<times> int) list" where
  "client_join db cid =
     [(c, s). c \<leftarrow> client_table db, (k, s) \<leftarrow> client_styles_table db,
              k = client_id c, client_id c = cid]"

definition get_client_info_and_styles :: "database \<Rightarrow> int \<Rightarrow> client_info option" where
  "get_client_info_and_styles db cid =
     (case client_join db cid of
        [] \<Rightarrow> None
      | (c, _) # _ \<Rightarrow>
          Some (client_id c, client_name c, client_city c, client_tattoo_type c,
                map snd (filter (\<lambda>(c', s). c' = c) (client_join db cid))))"


section \<open>Candidate selection and ranking\<close>

text \<open>
  \<open>all_master_client\<close> is the subquery of master ids that the three tier functions build
  in the same way; they differ in the condition on the master's city only
  (\<open>Master.city == city\<close> for the tiers all and city, \<open>Master.city != city\<close> for the tier
  none), which is the parameter \<open>in_scope\<close>. The first branch is taken when the client's
  aggregated style ids are exactly the list \<open>[NUMBER_ALL_STYLES]\<close>; the second is the
  \<open>union_all\<close> of the masters sharing a style with the client and of the masters holding
  the wildcard style. The subquery is used for membership only, so it is the list of its
  rows.
\<close>

definition all_master_client ::
  "database \<Rightarrow> int \<Rightarrow> string \<Rightarrow> int list \<Rightarrow> (master \<Rightarrow> bool) \<Rightarrow> int list" where
  "all_master_client db cid client_type list_styles in_scope =
     (if [NUMBER_ALL_STYLES] = list_styles then
        [k. m \<leftarrow> master_table db, (k, s) \<leftarrow> master_styles_table db, k = master_id m,
            filter_type client_type (tattoo_type m), \<not> is_blocked m, in_scope m]
      else
        [k. (k, s) \<leftarrow> master_styles_table db, m \<leftarrow> master_table db, master_id m = k,
            (c, s') \<leftarrow> client_styles_table db, s' = s,
            filter_type client_type (tattoo_type m), c = cid, in_scope m]
        @ [k. m \<leftarrow> master_table db, (k, s) \<leftarrow> master_styles_table db, k = master_id m,
              filter_type client_type (tattoo_type m), s = NUMBER_ALL_STYLES, in_scope m])"

text \<open>\<open>count(Likes.master_id)\<close> over the outer join of \<open>Master\<close> with \<open>Likes\<close>, grouped by
  master: the number of like rows of the master, 0 when the join finds none.\<close>

definition count_likes :: "database \<Rightarrow> int \<Rightarrow> int" where
  "count_likes db k = int (length (filter (\<lambda>(c, m). m = k) (likes_table db)))"

text \<open>
  \<open>order_by(desc(count_likes))\<close> is the only ordering in every ranking query. The rows of
  equal like count stay as the grouping emitted them, which is the store's order
  \<open>group_emit\<close> and no column of the query (\<open>sort_key\<close> is a stable insertion sort).
\<close>

definition emitted_groups :: "database \<Rightarrow> master list \<Rightarrow> master list" where
  "emitted_groups db ms = sort_key (\<lambda>m. group_emit db (master_id m)) ms"

definition order_by_desc_likes :: "database \<Rightarrow> master list \<Rightarrow> master list" where
  "order_by_desc_likes db ms =
     sort_key (\<lambda>m. - count_likes db (master_id m)) (emitted_groups db ms)"

type_synonym master_tuple = "int \<times> string \<times> string \<times> string \<times> int"

definition select_tuple :: "database \<Rightarrow> master \<Rightarrow> master_tuple" where
  "select_tuple db m =
     (master_id m, name m, city m, about_master m, count_likes db (master_id m))"

text \<open>The ranked masters of the three tier requests, for a client in \<open>city'\<close>.\<close>

definition request_all :: "database \<Rightarrow> int \<Rightarrow> string \<Rightarrow> string \<Rightarrow> int list \<Rightarrow> master list" where
  "request_all db cid city' client_type list_styles =
     order_by_desc_likes db
       (filter (\<lambda>m. city m = city' \<and> \<not> is_blocked m \<and>
                    master_id m \<in> set (all_master_client db cid client_type list_styles
                                         (\<lambda>m. city m = city')))
          (master_table db))"

definition request_city :: "database \<Rightarrow> int \<Rightarrow> string \<Rightarrow> string \<Rightarrow> int list \<Rightarrow> master list" where
  "request_city db cid city' client_type list_styles =
     order_by_desc_likes db
       (filter (\<lambda>m. city m = city' \<and> \<not> is_blocked m \<and>
                    master_id m \<notin> set (all_master_client db cid client_type list_styles
                                         (\<lambda>m. city m = city')))
          (master_table db))"

definition request_none :: "database \<Rightarrow> int \<Rightarrow> string \<Rightarrow> string \<Rightarrow> int list \<Rightarrow> master list" where
  "request_none db cid city' client_type list_styles =
     order_by_desc_likes db
       (filter (\<lambda>m. city m \<noteq> city' \<and> \<not> is_blocked m \<and>
                    master_id m \<in> set (all_master_client db cid client_type list_styles
                                         (\<lambda>m. city m \<noteq> city')))
          (master_table db))"


section \<open>Pagination\<close>

text \<open>
  \<open>number_iter = len_index // len_return + bool(len_index % len_return)\<close>. Python's \<open>//\<close> and
  \<open>%\<close> on integers are floor division and the remainder with the divisor's sign, as
  \<open>div\<close> and \<open>mod\<close> on \<open>int\<close> are; a zero divisor raises.
\<close>

definition number_iter :: "int \<Rightarrow> int \<Rightarrow> py_error + int" where
  "number_iter len_index len_return =
     (if len_return = 0 then Inl ZeroDivisionError
      else Inr (len_index div len_return + (if len_index mod len_return \<noteq> 0 then 1 else 0)))"

text \<open>
  \<open>cursor.fetchmany(size)\<close>: the cursor is the list of rows not yet fetched; the call
  removes and returns at most \<open>size\<close> of them. The result object takes them with
  \<open>itertools.islice\<close>, which raises \<open>ValueError\<close> for a size below 0 or above
  \<open>sys.maxsize\<close> (\<open>2\<^sup>6\<^sup>3 - 1\<close> on the 64-bit platforms the service runs on).
\<close>

definition sys_maxsize :: int where
  "sys_maxsize = 2 ^ 63 - 1"

definition fetchmany :: "int \<Rightarrow> 'a list \<Rightarrow> py_error + ('a list \<times> 'a list)" where
  "fetchmany len_return cursor =
     (if len_return < 0 \<or> sys_maxsize < len_return then Inl ValueError
      else Inr (take (nat len_return) cursor, drop (nat len_return) cursor))"

text \<open>
  The loop \<open>for _ in range(number_iter): value = cursor.fetchmany(len_return);
  list_tuples_masters = value\<close>. The last argument is the variable
  \<open>list_tuples_masters\<close>: \<open>None\<close> while it is unbound (the liked view does not initialise
  it).
\<close>

fun fetch_loop ::
  "nat \<Rightarrow> int \<Rightarrow> 'a list \<Rightarrow> 'a list option \<Rightarrow> py_error + 'a list option" where
  "fetch_loop 0 len_return cursor list_tuples_masters = Inr list_tuples_masters"
| "fetch_loop (Suc n) len_return cursor list_tuples_masters =
     (case fetchmany len_return cursor of
        Inl e \<Rightarrow> Inl e
      | Inr (value, cursor') \<Rightarrow> fetch_loop n len_return cursor' (Some value))"

text \<open>The loop of the newly-registered view, which returns the empty result as soon as a
  batch is empty: \<open>Inr None\<close> is that early return.\<close>

fun fetch_loop_new ::
  "nat \<Rightarrow> int \<Rightarrow> 'a list \<Rightarrow> 'a list \<Rightarrow> py_error + 'a list option" where
  "fetch_loop_new 0 len_return cursor list_tuples_masters = Inr (Some list_tuples_masters)"
| "fetch_loop_new (Suc n) len_return cursor list_tuples_masters =
     (case fetchmany len_return cursor of
        Inl e \<Rightarrow> Inl e
      | Inr (value, cursor') \<Rightarrow>
          if value = [] then Inr None else fetch_loop_new n len_return cursor' value)"


section \<open>Enrichment\<close>

text \<open>\<open>string_agg(column, ';')\<close> over the rows of one group, and Python's \<open>str.split\<close> with a
  one-character separator.\<close>

fun string_agg :: "string list \<Rightarrow> string" where
  "string_agg [] = []"
| "string_agg [x] = x"
| "string_agg (x # y # ys) = x @ CHR '';'' # string_agg (y # ys)"

fun split :: "char \<Rightarrow> string \<Rightarrow> string list" where
  "split sep [] = [[]]"
| "split sep (c # cs) =
     (if c = sep then [] # split sep cs
      else (case split sep cs of [] \<Rightarrow> [[c]] | w # ws \<Rightarrow> (c # w) # ws))"

text \<open>The rows of the two batched queries for one master id: its photo paths, and the
  names of its styles (\<open>MasterStyles\<close> inner-joined with \<open>Styles\<close>), in the order in which
  \<open>string_agg\<close> receives them (the aggregate orders by the master id only, which is the
  same for all rows of a group).\<close>

definition photo_rows :: "database \<Rightarrow> int \<Rightarrow> string list" where
  "photo_rows db k =
     sort_key (agg_emit db) [p. (m, p) \<leftarrow> master_photos_table db, m = k]"

definition style_rows :: "database \<Rightarrow> int \<Rightarrow> string list" where
  "style_rows db k =
     sort_key (agg_emit db)
       [n. (m, s) \<leftarrow> master_styles_table db, (s', n) \<leftarrow> styles_table db, s' = s, m = k]"

text \<open>\<open>dict(rows.all())\<close> of a query grouped by master id and restricted to
  \<open>master_id IN list_master_id\<close>: a master without rows has no group and no key.\<close>

definition foto_master_dict :: "database \<Rightarrow> int list \<Rightarrow> (int \<rightharpoonup> string)" where
  "foto_master_dict db list_master_id k =
     (if k \<in> set list_master_id \<and> photo_rows db k \<noteq> []
      then Some (string_agg (photo_rows db k)) else None)"

definition styles_master_dict :: "database \<Rightarrow> int list \<Rightarrow> (int \<rightharpoonup> string)" where
  "styles_master_dict db list_master_id k =
     (if k \<in> set list_master_id \<and> style_rows db k \<noteq> []
      then Some (string_agg (style_rows db k)) else None)"

definition get_master_list_photos :: "database \<Rightarrow> int list \<Rightarrow> (int \<rightharpoonup> string list)" where
  "get_master_list_photos db list_master_id =
     map_of (map (\<lambda>k. (k, case foto_master_dict db list_master_id k of
                             None \<Rightarrow> [] | Some s \<Rightarrow> split CHR '';'' s))
                 list_master_id)"

definition get_master_list_selected_styles :: "database \<Rightarrow> int list \<Rightarrow> (int \<rightharpoonup> string list)" where
  "get_master_list_selected_styles db list_master_id =
     map_of (map (\<lambda>k. (k, case styles_master_dict db list_master_id k of
                             None \<Rightarrow> [] | Some s \<Rightarrow> split CHR '';'' s))
                 list_master_id)"

text \<open>The loop that builds the dictionaries; \<open>styles[master_id]\<close> is evaluated before
  \<open>photo_path[master_id]\<close>, and a missing key raises.\<close>

fun create_dicts ::
  "(int \<rightharpoonup> string list) \<Rightarrow> (int \<rightharpoonup> string list) \<Rightarrow> master_tuple list \<Rightarrow>
   py_error + master_dict list" where
  "create_dicts styles photo_path [] = Inr []"
| "create_dicts styles photo_path ((k, n, c, a, l) # rest) =
     (case styles k of
        None \<Rightarrow> Inl KeyError
      | Some st \<Rightarrow>
          (case photo_path k of
             None \<Rightarrow> Inl KeyError
           | Some ph \<Rightarrow>
               (case create_dicts styles photo_path rest of
                  Inl e \<Rightarrow> Inl e
                | Inr ds \<Rightarrow>
                    Inr (\<lparr>d_master_id = k, d_name = n, d_city = c, d_about_master = a,
                          d_styles = st, d_photo_path = ph, d_likes = l\<rparr> # ds))))"

definition enrich :: "database \<Rightarrow> master_tuple list \<Rightarrow> py_error + master_dict list" where
  "enrich db list_tuples_masters =
     (let list_master_id = map fst list_tuples_masters;
          photo_path = get_master_list_photos db list_master_id;
          styles = get_master_list_selected_styles db list_master_id
      in create_dicts styles photo_path list_tuples_masters)"


section \<open>The tier functions and their dispatcher\<close>

text \<open>What the three tier functions do with the executed request: fetch the batch, collect
  its ids, query photos and styles for these ids, build the dictionaries.\<close>

definition fetch_and_enrich ::
  "database \<Rightarrow> master_tuple list \<Rightarrow> int \<Rightarrow> int \<Rightarrow> py_error + master_dict list" where
  "fetch_and_enrich db generator_list_masters len_index len_return =
     (case number_iter len_index len_return of
        Inl e \<Rightarrow> Inl e
      | Inr n \<Rightarrow>
          (case fetch_loop (nat n) len_return generator_list_masters (Some []) of
             Inl e \<Rightarrow> Inl e
           | Inr None \<Rightarrow> Inl UnboundLocalError
           | Inr (Some list_tuples_masters) \<Rightarrow> enrich db list_tuples_masters))"

definition get_master_ranking_by_like_all ::
  "database \<Rightarrow> int \<Rightarrow> int \<Rightarrow> int \<Rightarrow> py_error + master_dict list" where
  "get_master_ranking_by_like_all db cid len_index len_return =
     (case get_client_info_and_styles db cid of
        None \<Rightarrow> Inr []
      | Some (_, _, city', client_type, list_styles) \<Rightarrow>
          fetch_and_enrich db
            (map (select_tuple db) (request_all db cid city' client_type list_styles))
            len_index len_return)"

definition get_master_ranking_by_like_city ::
  "database \<Rightarrow> int \<Rightarrow> int \<Rightarrow> int \<Rightarrow> py_error + master_dict list" where
  "get_master_ranking_by_like_city db cid len_index len_return =
     (case get_client_info_and_styles db cid of
        None \<Rightarrow> Inr []
      | Some (_, _, city', client_type, list_styles) \<Rightarrow>
          fetch_and_enrich db
            (map (select_tuple db) (request_city db cid city' client_type list_styles))
            len_index len_return)"

definition get_master_ranking_by_like_none ::
  "database \<Rightarrow> int \<Rightarrow> int \<Rightarrow> int \<Rightarrow> py_error + master_dict list" where
  "get_master_ranking_by_like_none db cid len_index len_return =
     (case get_client_info_and_styles db cid of
        None \<Rightarrow> Inr []
      | Some (_, _, city', client_type, list_styles) \<Rightarrow>
          fetch_and_enrich db
            (map (select_tuple db) (request_none db cid city' client_type list_styles))
            len_index len_return)"

definition get_master_ranking_by_like_with_except ::
  "database \<Rightarrow> int \<Rightarrow> int \<Rightarrow> int \<Rightarrow> string \<Rightarrow> py_error + master_dict list" where
  "get_master_ranking_by_like_with_except db cid len_index len_return filtered =
     (if filtered \<notin> set [''all'', ''city'', ''none''] then Inr []
      else if filtered = ''all'' then get_master_ranking_by_like_all db cid len_index len_return
      else if filtered = ''city'' then get_master_ranking_by_like_city db cid len_index len_return
      else get_master_ranking_by_like_none db cid len_index len_return)"


section \<open>The liked view\<close>

text \<open>The ranked masters of \<open>get_master_liked_client\<close>: the masters whose id is among the
  client's like rows and who are not blocked.\<close>

definition request_liked :: "database \<Rightarrow> int \<Rightarrow> master list" where
  "request_liked db cid =
     order_by_desc_likes db
       (filter (\<lambda>m. master_id m \<in> set [k. (c, k) \<leftarrow> likes_table db, c = cid] \<and> \<not> is_blocked m)
          (master_table db))"

text \<open>
  The photo query of the liked view selects the aggregated string only, one row per
  master that has photos, and the function splits every row into \<open>master_foto_list\<close>.
  The aggregate \<open>string_agg(photo_path, ';' ORDER BY master_id)\<close> has its rows sorted by the
  master id, and the groups come in that order, ascending.
\<close>

definition photo_group_keys :: "database \<Rightarrow> int list \<Rightarrow> int list" where
  "photo_group_keys db list_master_id =
     sort (remdups [m. (m, p) \<leftarrow> master_photos_table db, m \<in> set list_master_id])"

definition master_foto_list :: "database \<Rightarrow> int list \<Rightarrow> string list list" where
  "master_foto_list db list_master_id =
     map (\<lambda>k. split CHR '';'' (string_agg (photo_rows db k)))
         (photo_group_keys db list_master_id)"

text \<open>The loop \<open>for master in range(len(list_tuples_masters))\<close>; the last argument is the
  index \<open>master\<close>. The styles are read from the dictionary of the query by the master's id,
  the photos from \<open>master_foto_list\<close> by the index.\<close>

fun create_dicts_liked ::
  "(int \<rightharpoonup> string) \<Rightarrow> string list list \<Rightarrow> master_tuple list \<Rightarrow> nat \<Rightarrow>
   py_error + master_dict list" where
  "create_dicts_liked style_master_dict foto_list [] i = Inr []"
| "create_dicts_liked style_master_dict foto_list ((k, n, c, a, l) # rest) i =
     (case style_master_dict k of
        None \<Rightarrow> Inl KeyError
      | Some s \<Rightarrow>
          if i < length foto_list then
            (case create_dicts_liked style_master_dict foto_list rest (Suc i) of
               Inl e \<Rightarrow> Inl e
             | Inr ds \<Rightarrow>
                 Inr (\<lparr>d_master_id = k, d_name = n, d_city = c, d_about_master = a,
                       d_styles = split CHR '';'' s, d_photo_path = foto_list ! i,
                       d_likes = l\<rparr> # ds))
          else Inl IndexError)"

definition get_master_liked_client ::
  "database \<Rightarrow> int \<Rightarrow> int \<Rightarrow> int \<Rightarrow> py_error + master_dict list" where
  "get_master_liked_client db cid len_index len_return =
     (case number_iter len_index len_return of
        Inl e \<Rightarrow> Inl e
      | Inr n \<Rightarrow>
          (case fetch_loop (nat n) len_return (map (select_tuple db) (request_liked db cid)) None of
             Inl e \<Rightarrow> Inl e
           | Inr None \<Rightarrow> Inl UnboundLocalError
           | Inr (Some list_tuples_masters) \<Rightarrow>
               (let list_master_id = map fst list_tuples_masters
                in create_dicts_liked (styles_master_dict db list_master_id)
                     (master_foto_list db list_master_id) list_tuples_masters 0)))"


section \<open>The newly-registered view\<close>

text \<open>\<open>datetime.timedelta(weeks=1)\<close> in microseconds.\<close>

definition week :: int where
  "week = 604800000000"

text \<open>
  The scalar subquery \<open>client_city\<close> is the city of the client row with the given id
  (\<open>client_id\<close> is the primary key), or NULL without such a row; a comparison with NULL
  selects no master. \<open>now\<close> stands for \<open>datetime.datetime.now()\<close> at the call.
\<close>

definition request_new :: "database \<Rightarrow> int \<Rightarrow> int \<Rightarrow> master list" where
  "request_new db now cid =
     (let day_ago = now - week;
          client_city' = (case filter (\<lambda>c. client_id c = cid) (client_table db) of
                            [] \<Rightarrow> None | c # _ \<Rightarrow> Some (client_city c));
          reg_day_ago = [master_id m. m \<leftarrow> master_table db,
                           Some (city m) = client_city', date_of_reg m > day_ago]
      in order_by_desc_likes db
           (filter (\<lambda>m. master_id m \<in> set reg_day_ago \<and> \<not> is_blocked m) (master_table db)))"

definition get_master_new_registered ::
  "database \<Rightarrow> int \<Rightarrow> int \<Rightarrow> int \<Rightarrow> int \<Rightarrow> py_error + master_dict list" where
  "get_master_new_registered db now cid len_index len_return =
     (case number_iter len_index len_return of
        Inl e \<Rightarrow> Inl e
      | Inr n \<Rightarrow>
          (case fetch_loop_new (nat n) len_return
                  (map (select_tuple db) (request_new db now cid)) [] of
             Inl e \<Rightarrow> Inl e
           | Inr None \<Rightarrow> Inr []
           | Inr (Some list_tuples_masters) \<Rightarrow> enrich db list_tuples_masters))"


section \<open>Creating a like (\<open>common_queries.py\<close>)\<close>

text \<open>
  \<open>create_like\<close> adds one row to \<open>Likes\<close> and commits when the \<open>session.begin()\<close> block is
  left. The table declares the unique constraint \<open>unique_client_master_likes\<close> on
  \<open>(client_id, master_id)\<close> and a foreign key on each of the two columns; a row that
  violates one of them makes the commit raise \<open>IntegrityError\<close>, which the function
  answers with \<open>False\<close>, and nothing is stored. The result is the returned boolean and
  the store after the call. (An id outside the range of \<open>BigInteger\<close> is refused by the
  driver before any constraint is looked at; the tables hold no such id, and the model
  takes the arguments within the range.)
\<close>

definition integrity_error :: "database \<Rightarrow> int \<Rightarrow> int \<Rightarrow> bool" where
  "integrity_error db cid mid \<longleftrightarrow>
     (cid, mid) \<in> set (likes_table db) \<or>
     cid \<notin> set (map client_id (client_table db)) \<or>
     mid \<notin> set (map master_id (master_table db))"

definition create_like :: "database \<Rightarrow> int \<Rightarrow> int \<Rightarrow> bool \<times> database" where
  "create_like db cid mid =
     (if integrity_error db cid mid then (False, db)
      else (True, db\<lparr>likes_table := likes_table db @ [(cid, mid)]\<rparr>))"

text \<open>A run of \<open>create_like\<close> calls, one after the other, on the pairs of a list.\<close>

fun create_like_calls :: "database \<Rightarrow> (int \<times> int) list \<Rightarrow> database" where
  "create_like_calls db [] = db"
| "create_like_calls db ((cid, mid) # calls) = create_like_calls (snd (create_like db cid mid)) calls"


section \<open>Closed forms used in the statements\<close>

text \<open>The slice \<open>[offset, offset + page_size)\<close> of a sequence, in the words of the spec's
  paginator contract.\<close>

definition slice :: "'a list \<Rightarrow> nat \<Rightarrow> nat \<Rightarrow> 'a list" where
  "slice xs offset page_size = take page_size (drop offset xs)"

text \<open>The batch that the fetch loop leaves in \<open>list_tuples_masters\<close> when that variable
  starts as the empty list and \<open>len_return\<close> is a size that \<open>fetchmany\<close> accepts (lemma
  \<open>fetch_loop_closed\<close> relates it to \<open>fetch_loop\<close>).\<close>

definition last_batch :: "'a list \<Rightarrow> int \<Rightarrow> int \<Rightarrow> 'a list" where
  "last_batch cursor len_index len_return =
     (let n = nat (len_index div len_return + (if len_index mod len_return \<noteq> 0 then 1 else 0))
      in if n = 0 then [] else slice cursor ((n - 1) * nat len_return) (nat len_return))"

text \<open>The fetch loop fails when it runs at least once and \<open>fetchmany\<close> refuses the
  size.\<close>

definition refused :: "int \<Rightarrow> int \<Rightarrow> bool" where
  "refused len_index len_return \<longleftrightarrow>
     0 < len_index div len_return + (if len_index mod len_return \<noteq> 0 then 1 else 0) \<and>
     (len_return < 0 \<or> sys_maxsize < len_return)"

text \<open>The page of size \<open>k\<close> that holds position \<open>e - 1\<close> of a sequence, that is the slice
  \<open>[e - k, e)\<close> when \<open>e\<close> is a multiple of \<open>k\<close>; no page for \<open>e = 0\<close>.\<close>

definition page_ending_at :: "'a list \<Rightarrow> int \<Rightarrow> int \<Rightarrow> 'a list" where
  "page_ending_at xs e k =
     (if e = 0 then [] else slice xs (nat ((e - 1) div k * k)) (nat k))"

text \<open>The lists that \<open>get_master_list_selected_styles\<close> and \<open>get_master_list_photos\<close> hold
  for a master id that is among the requested ids, and the dictionary built from a
  fetched tuple with them (lemma \<open>enrich_closed\<close>).\<close>

definition styles_of :: "database \<Rightarrow> int \<Rightarrow> string list" where
  "styles_of db k =
     (if style_rows db k = [] then [] else split CHR '';'' (string_agg (style_rows db k)))"

definition photos_of :: "database \<Rightarrow> int \<Rightarrow> string list" where
  "photos_of db k =
     (if photo_rows db k = [] then [] else split CHR '';'' (string_agg (photo_rows db k)))"

fun make_dict :: "database \<Rightarrow> master_tuple \<Rightarrow> master_dict" where
  "make_dict db (k, n, c, a, l) =
     \<lparr>d_master_id = k, d_name = n, d_city = c, d_about_master = a,
      d_styles = styles_of db k, d_photo_path = photos_of db k, d_likes = l\<rparr>"

text \<open>The ranked sequence of the tier that the dispatcher selects for a token.\<close>

definition request_of ::
  "database \<Rightarrow> int \<Rightarrow> string \<Rightarrow> string \<Rightarrow> int list \<Rightarrow> string \<Rightarrow> master list" where
  "request_of db cid city' client_type list_styles filtered =
     (if filtered = ''all'' then request_all db cid city' client_type list_styles
      else if filtered = ''city'' then request_city db cid city' client_type list_styles
      else request_none db cid city' client_type list_styles)"

text \<open>The ranked sequence of a tier call for a client id: that of the tier's request with
  the client's city, tattoo type and style ids, and empty when the lookup finds no
  client.\<close>

definition tier_sequence :: "database \<Rightarrow> int \<Rightarrow> string \<Rightarrow> master list" where
  "tier_sequence db cid filtered =
     (case get_client_info_and_styles db cid of
        None \<Rightarrow> []
      | Some (_, _, city', client_type, list_styles) \<Rightarrow>
          request_of db cid city' client_type list_styles filtered)"



section \<open>Example stores\<close>

text \<open>
  The setup of the spec's example: requester 100 in Berlin, preference Both, the wildcard
  as the only chosen style; providers 1 (Berlin, Color, 3 likes), 2 (Berlin, Monochrome,
  1 like) and 3 (Munich, Color, 5 likes), none blocked, each with one style row. The
  master table holds them in the order 3, 2, 1; provider 1 alone has a photo. The store
  emits the groups of masters in the order of their ids, and the style name Realism
  before the others.
\<close>

definition example_clients :: "client list" where
  "example_clients =
     map (\<lambda>k. \<lparr>client_id = k, client_name = ''R'', client_city = ''Berlin'',
               client_tattoo_type = TATTOO_TYPE_BOTH\<rparr>) [100, 101, 102, 103, 104]"

definition example_masters :: "master list" where
  "example_masters =
     [\<lparr>master_id = 3, name = ''P3'', city = ''Munich'', about_master = ''c'',
       tattoo_type = TATTOO_TYPE_COLOR, date_of_reg = 0, is_blocked = False\<rparr>,
      \<lparr>master_id = 2, name = ''P2'', city = ''Berlin'', about_master = ''b'',
       tattoo_type = TATTOO_TYPE_MONOCHROME, date_of_reg = 0, is_blocked = False\<rparr>,
      \<lparr>master_id = 1, name = ''P1'', city = ''Berlin'', about_master = ''a'',
       tattoo_type = TATTOO_TYPE_COLOR, date_of_reg = 0, is_blocked = False\<rparr>]"

definition berlin_db :: database where
  "berlin_db =
     \<lparr>master_table = example_masters,
      client_table = example_clients,
      likes_table = [(100, 1), (101, 1), (102, 1), (101, 2),
                     (100, 3), (101, 3), (102, 3), (103, 3), (104, 3)],
      client_styles_table = [(100, 0)],
      master_styles_table = [(1, 1), (2, 2), (3, 1)],
      styles_table = [(0, ''All''), (1, ''Realism''), (2, ''Dotwork'')],
      master_photos_table = [(1, ''p1.jpg'')],
      group_emit = (\<lambda>k. k),
      agg_emit = (\<lambda>s. if s = ''Realism'' then 0 else 1)\<rparr>"




text \<open>The dictionaries of the three providers of the example store.\<close>

definition card_P1 :: master_dict where
  "card_P1 = \<lparr>d_master_id = 1, d_name = ''P1'', d_city = ''Berlin'', d_about_master = ''a'',
     d_styles = [''Realism''], d_photo_path = [''p1.jpg''], d_likes = 3\<rparr>"

definition card_P2 :: master_dict where
  "card_P2 = \<lparr>d_master_id = 2, d_name = ''P2'', d_city = ''Berlin'', d_about_master = ''b'',
     d_styles = [''Dotwork''], d_photo_path = [], d_likes = 1\<rparr>"

definition card_P3 :: master_dict where
  "card_P3 = \<lparr>d_master_id = 3, d_name = ''P3'', d_city = ''Munich'', d_about_master = ''c'',
     d_styles = [''Realism''], d_photo_path = [], d_likes = 5\<rparr>"


text \<open>The example store with other style rows for every provider.\<close>

definition restyled_db :: database where
  "restyled_db = berlin_db\<lparr>master_styles_table := [(1, 2), (2, 1), (3, 2), (3, 1)]\<rparr>"


text \<open>The example store with provider 1 blocked.\<close>

definition blocked_P1 :: master where
  "blocked_P1 = \<lparr>master_id = 1, name = ''P1'', city = ''Berlin'', about_master = ''a'',
       tattoo_type = TATTOO_TYPE_COLOR, date_of_reg = 0, is_blocked = True\<rparr>"

definition blocked_db :: database where
  "blocked_db = berlin_db\<lparr>master_table := [hd example_masters, hd (tl example_masters), blocked_P1]\<rparr>"


text \<open>The example store without style rows of masters.\<close>

definition no_styles_db :: database where
  "no_styles_db = berlin_db\<lparr>master_styles_table := []\<rparr>"



section \<open>Theorems\<close>

subsection \<open>Ranking, the fetch loop and the enrichment in closed form\<close>

lemma set_order_by_desc_likes [simp]: "set (order_by_desc_likes db ms) = set ms"
  by (simp add: order_by_desc_likes_def emitted_groups_def)




lemma fetchmany_accepts:
  "\<not> (k < 0 \<or> sys_maxsize < k) \<Longrightarrow>
   fetchmany k cursor = Inr (take (nat k) cursor, drop (nat k) cursor)"
  by (simp add: fetchmany_def)

lemma fetchmany_refuses: "k < 0 \<or> sys_maxsize < k \<Longrightarrow> fetchmany k cursor = Inl ValueError"
  by (simp add: fetchmany_def)

lemma fetch_loop_closed:
  "fetch_loop n k cursor v =
     (if n = 0 then Inr v
      else if k < 0 \<or> sys_maxsize < k then Inl ValueError
      else Inr (Some (slice cursor ((n - 1) * nat k) (nat k))))"
proof (cases "k < 0 \<or> sys_maxsize < k")
  case True
  then show ?thesis by (cases n) (simp_all add: fetchmany_refuses)
next
  case False
  have "fetch_loop n k cursor v =
      (if n = 0 then Inr v else Inr (Some (slice cursor ((n - 1) * nat k) (nat k))))"
  proof (induction n arbitrary: cursor v)
    case 0
    then show ?case by simp
  next
    case (Suc n)
    have "fetch_loop (Suc n) k cursor v =
        fetch_loop n k (drop (nat k) cursor) (Some (take (nat k) cursor))"
      by (simp add: fetchmany_accepts [OF False])
    also have "\<dots> = (if n = 0 then Inr (Some (take (nat k) cursor))
        else Inr (Some (slice (drop (nat k) cursor) ((n - 1) * nat k) (nat k))))"
      by (rule Suc.IH)
    also have "\<dots> = Inr (Some (slice cursor (n * nat k) (nat k)))"
      by (cases n) (simp_all add: slice_def add.commute)
    finally show ?case by simp
  qed
  with False show ?thesis by simp
qed

lemma fetch_loop_new_closed:
  "fetch_loop_new n k cursor v =
     (if n = 0 then Inr (Some v)
      else if k < 0 \<or> sys_maxsize < k then Inl ValueError
      else if slice cursor ((n - 1) * nat k) (nat k) = [] then Inr None
      else Inr (Some (slice cursor ((n - 1) * nat k) (nat k))))"
proof (cases "k < 0 \<or> sys_maxsize < k")
  case True
  then show ?thesis by (cases n) (simp_all add: fetchmany_refuses)
next
  case False
  have "fetch_loop_new n k cursor v =
      (if n = 0 then Inr (Some v)
       else if slice cursor ((n - 1) * nat k) (nat k) = [] then Inr None
       else Inr (Some (slice cursor ((n - 1) * nat k) (nat k))))"
  proof (induction n arbitrary: cursor v)
    case 0
    then show ?case by simp
  next
    case (Suc n)
    show ?case
    proof (cases "take (nat k) cursor = []")
      case True
      then have "slice cursor (n * nat k) (nat k) = []" by (auto simp add: slice_def)
      with True show ?thesis by (simp add: fetchmany_accepts [OF False])
    next
      case ne: False
      then have "fetch_loop_new (Suc n) k cursor v =
          fetch_loop_new n k (drop (nat k) cursor) (take (nat k) cursor)"
        by (simp add: fetchmany_accepts [OF False])
      also have "\<dots> = (if n = 0 then Inr (Some (take (nat k) cursor))
          else if slice (drop (nat k) cursor) ((n - 1) * nat k) (nat k) = [] then Inr None
          else Inr (Some (slice (drop (nat k) cursor) ((n - 1) * nat k) (nat k))))"
        by (rule Suc.IH)
      also have "\<dots> = (if slice cursor (n * nat k) (nat k) = [] then Inr None
          else Inr (Some (slice cursor (n * nat k) (nat k))))"
        using ne by (cases n) (simp_all add: slice_def add.commute)
      finally show ?thesis by simp
    qed
  qed
  with False show ?thesis by simp
qed

lemma create_dicts_closed:
  "\<forall>r \<in> set rows. styles (fst r) = Some (S (fst r)) \<and> photo (fst r) = Some (P (fst r)) \<Longrightarrow>
   create_dicts styles photo rows =
     Inr (map (\<lambda>(k, n, c, a, l). \<lparr>d_master_id = k, d_name = n, d_city = c, d_about_master = a,
                d_styles = S k, d_photo_path = P k, d_likes = l\<rparr>) rows)"
  by (induction styles photo rows rule: create_dicts.induct) auto

lemma map_of_keys: "map_of (map (\<lambda>k. (k, f k)) ks) k = (if k \<in> set ks then Some (f k) else None)"
  by (induction ks) auto

lemma enrich_closed: "enrich db rows = Inr (map (make_dict db) rows)"
proof -
  let ?ids = "map fst rows"
  have st: "get_master_list_selected_styles db ?ids (fst r) = Some (styles_of db (fst r))"
    if "r \<in> set rows" for r
    using that unfolding get_master_list_selected_styles_def map_of_keys
    by (simp add: styles_master_dict_def styles_of_def)
  have ph: "get_master_list_photos db ?ids (fst r) = Some (photos_of db (fst r))"
    if "r \<in> set rows" for r
    using that unfolding get_master_list_photos_def map_of_keys
    by (simp add: foto_master_dict_def photos_of_def)
  have "create_dicts (get_master_list_selected_styles db ?ids) (get_master_list_photos db ?ids) rows =
      Inr (map (\<lambda>(k, n, c, a, l). \<lparr>d_master_id = k, d_name = n, d_city = c, d_about_master = a,
                d_styles = styles_of db k, d_photo_path = photos_of db k, d_likes = l\<rparr>) rows)"
    by (rule create_dicts_closed) (simp add: st ph)
  moreover have "(\<lambda>(k, n, c, a, l). \<lparr>d_master_id = k, d_name = n, d_city = c, d_about_master = a,
                d_styles = styles_of db k, d_photo_path = photos_of db k, d_likes = l\<rparr>) = make_dict db"
    by (auto simp add: fun_eq_iff)
  ultimately show ?thesis by (simp add: enrich_def Let_def)
qed
lemma fetch_and_enrich_closed:
  "fetch_and_enrich db rows e k =
     (if k = 0 then Inl ZeroDivisionError
      else if refused e k then Inl ValueError
      else Inr (map (make_dict db) (last_batch rows e k)))"
  by (auto simp add: fetch_and_enrich_def number_iter_def fetch_loop_closed enrich_closed
      last_batch_def refused_def Let_def)

lemma last_batch_map: "last_batch (map f xs) e k = map f (last_batch xs e k)"
  by (simp add: last_batch_def slice_def Let_def take_map drop_map)


lemma set_last_batch: "set (last_batch xs e k) \<subseteq> set xs"
proof -
  have "set (take a (drop b xs)) \<subseteq> set xs" for a b
    using set_take_subset [of a "drop b xs"] set_drop_subset [of b xs] by blast
  then show ?thesis by (simp add: last_batch_def slice_def Let_def)
qed

lemma d_master_id_make_dict [simp]: "d_master_id (make_dict db (select_tuple db m)) = master_id m"
  by (simp add: select_tuple_def)

lemma d_likes_make_dict [simp]:
  "d_likes (make_dict db (select_tuple db m)) = count_likes db (master_id m)"
  by (simp add: select_tuple_def)
lemma get_master_ranking_by_like_all_closed:
  "get_client_info_and_styles db cid = Some (i, n, c, t, s) \<Longrightarrow>
   get_master_ranking_by_like_all db cid e k =
     (if k = 0 then Inl ZeroDivisionError
      else if refused e k then Inl ValueError
      else Inr (map (\<lambda>m. make_dict db (select_tuple db m))
                  (last_batch (request_all db cid c t s) e k)))"
  by (simp add: get_master_ranking_by_like_all_def fetch_and_enrich_closed last_batch_map)

lemma get_master_ranking_by_like_city_closed:
  "get_client_info_and_styles db cid = Some (i, n, c, t, s) \<Longrightarrow>
   get_master_ranking_by_like_city db cid e k =
     (if k = 0 then Inl ZeroDivisionError
      else if refused e k then Inl ValueError
      else Inr (map (\<lambda>m. make_dict db (select_tuple db m))
                  (last_batch (request_city db cid c t s) e k)))"
  by (simp add: get_master_ranking_by_like_city_def fetch_and_enrich_closed last_batch_map)

lemma get_master_ranking_by_like_none_closed:
  "get_client_info_and_styles db cid = Some (i, n, c, t, s) \<Longrightarrow>
   get_master_ranking_by_like_none db cid e k =
     (if k = 0 then Inl ZeroDivisionError
      else if refused e k then Inl ValueError
      else Inr (map (\<lambda>m. make_dict db (select_tuple db m))
                  (last_batch (request_none db cid c t s) e k)))"
  by (simp add: get_master_ranking_by_like_none_def fetch_and_enrich_closed last_batch_map)

lemma get_master_new_registered_closed:
  "get_master_new_registered db now cid e k =
     (if k = 0 then Inl ZeroDivisionError
      else if refused e k then Inl ValueError
      else Inr (map (\<lambda>m. make_dict db (select_tuple db m))
                  (last_batch (request_new db now cid) e k)))"
  by (auto simp add: get_master_new_registered_def number_iter_def fetch_loop_new_closed
      enrich_closed last_batch_def refused_def Let_def slice_def take_map drop_map)

lemma create_dicts_liked_ids:
  "create_dicts_liked sd fl rows i = Inr ds \<Longrightarrow>
   map (\<lambda>d. (d_master_id d, d_likes d)) ds = map (\<lambda>(k, n, c, a, l). (k, l)) rows"
  by (induction sd fl rows i arbitrary: ds rule: create_dicts_liked.induct)
     (auto split: option.splits if_splits sum.splits)

lemma get_master_liked_client_batch:
  assumes "get_master_liked_client db cid e k = Inr ds"
  shows "create_dicts_liked
           (styles_master_dict db (map master_id (last_batch (request_liked db cid) e k)))
           (master_foto_list db (map master_id (last_batch (request_liked db cid) e k)))
           (map (select_tuple db) (last_batch (request_liked db cid) e k)) 0 = Inr ds"
proof -
  let ?rows = "map (select_tuple db) (request_liked db cid)"
  let ?n = "nat (e div k + (if e mod k \<noteq> 0 then 1 else 0))"
  from assms have k: "k \<noteq> 0"
    by (auto simp add: get_master_liked_client_def number_iter_def split: if_splits)
  from assms k have n: "?n \<noteq> 0" and ok: "\<not> (k < 0 \<or> sys_maxsize < k)"
    by (auto simp add: get_master_liked_client_def number_iter_def fetch_loop_closed
        split: if_splits)
  have batch: "fetch_loop ?n k ?rows None = Inr (Some (last_batch ?rows e k))"
    using n ok by (simp add: fetch_loop_closed last_batch_def Let_def)
  have ids: "map fst (last_batch ?rows e k) = map master_id (last_batch (request_liked db cid) e k)"
    by (simp add: last_batch_map select_tuple_def comp_def)
  from assms k batch have
    "create_dicts_liked (styles_master_dict db (map fst (last_batch ?rows e k)))
       (master_foto_list db (map fst (last_batch ?rows e k))) (last_batch ?rows e k) 0 = Inr ds"
    by (simp add: get_master_liked_client_def number_iter_def Let_def)
  then show ?thesis unfolding ids by (simp add: last_batch_map)
qed

lemma get_master_liked_client_ids:
  assumes "get_master_liked_client db cid e k = Inr ds"
  shows "map (\<lambda>d. (d_master_id d, d_likes d)) ds =
         map (\<lambda>m. (master_id m, count_likes db (master_id m)))
           (last_batch (request_liked db cid) e k)"
  using create_dicts_liked_ids [OF get_master_liked_client_batch [OF assms]]
  by (simp add: select_tuple_def comp_def)


subsection \<open>The claims\<close>

text \<open>
  C5. The type filter derived from the requester's preference excludes exactly the
  providers of type Color when the preference is Monochrome, exactly those of type
  Monochrome when it is Color, and nobody when it is Both (or any other token); a provider
  whose type is Both (or any type other than Color and Monochrome) passes for every
  preference.
\<close>

theorem filter_type_table:
  "(filter_type TATTOO_TYPE_MONOCHROME t \<longleftrightarrow> t \<noteq> TATTOO_TYPE_COLOR) \<and>
   (filter_type TATTOO_TYPE_COLOR t \<longleftrightarrow> t \<noteq> TATTOO_TYPE_MONOCHROME) \<and>
   filter_type TATTOO_TYPE_BOTH t \<and>
   filter_type p TATTOO_TYPE_BOTH \<and>
   (p \<noteq> TATTOO_TYPE_MONOCHROME \<and> p \<noteq> TATTOO_TYPE_COLOR \<longrightarrow> filter_type p t) \<and>
   (t \<noteq> TATTOO_TYPE_MONOCHROME \<and> t \<noteq> TATTOO_TYPE_COLOR \<longrightarrow> filter_type p t)"
  by (simp add: filter_type_def TATTOO_TYPE_MONOCHROME_def TATTOO_TYPE_COLOR_def
      TATTOO_TYPE_BOTH_def)

theorem filter_type_table_witness:
  "(filter_type TATTOO_TYPE_MONOCHROME ''Color'' \<longleftrightarrow> ''Color'' \<noteq> TATTOO_TYPE_COLOR) \<and>
   (filter_type TATTOO_TYPE_COLOR ''Color'' \<longleftrightarrow> ''Color'' \<noteq> TATTOO_TYPE_MONOCHROME) \<and>
   ''Any'' \<noteq> TATTOO_TYPE_MONOCHROME \<and> ''Any'' \<noteq> TATTOO_TYPE_COLOR \<and>
   filter_type ''Any'' ''Color'' \<and> filter_type ''Color'' ''Any''"
  using filter_type_table [of "''Color''" "''Any''"] filter_type_table [of "''Any''" "''Color''"]
  by (simp add: TATTOO_TYPE_MONOCHROME_def TATTOO_TYPE_COLOR_def)




lemma client_none_empty:
  assumes "get_client_info_and_styles db cid = None"
  shows "get_master_ranking_by_like_with_except db cid e k filtered = Inr []"
  using assms
  by (simp add: get_master_ranking_by_like_with_except_def get_master_ranking_by_like_all_def
      get_master_ranking_by_like_city_def get_master_ranking_by_like_none_def)






lemma berlin_all: "get_master_ranking_by_like_with_except berlin_db 100 10 10 ''all'' = Inr [card_P1, card_P2]"
  by code_simp

lemma berlin_none: "get_master_ranking_by_like_with_except berlin_db 100 10 10 ''none'' = Inr [card_P3]"
  by code_simp



lemma number_iter_pos:
  fixes e k :: int
  assumes "1 \<le> k" "1 \<le> e"
  shows "e div k + (if e mod k \<noteq> 0 then 1 else 0) = (e - 1) div k + 1"
proof (cases "e mod k = 0")
  case True
  then obtain q where q: "e = k * q" by auto
  have "e - 1 = k * (q - 1) + (k - 1)" using q by (simp add: algebra_simps)
  with assms have "(e - 1) div k = q - 1"
    by (intro int_div_pos_eq [where r = "k - 1"]) auto
  with q assms show ?thesis by simp
next
  case False
  have "e = k * (e div k) + e mod k" by simp
  moreover have "0 \<le> e mod k" "e mod k < k" using assms by simp_all
  moreover have "0 < e mod k" using False \<open>0 \<le> e mod k\<close> by simp
  ultimately have "(e - 1) div k = e div k"
    by (intro int_div_pos_eq [where r = "e mod k - 1"]) auto
  with False show ?thesis by simp
qed

lemma last_batch_page:
  assumes "1 \<le> k" "0 \<le> e"
  shows "last_batch xs e k = page_ending_at xs e k"
proof (cases "e = 0")
  case True
  then show ?thesis by (simp add: last_batch_def page_ending_at_def)
next
  case False
  with assms have e: "1 \<le> e" by simp
  have q: "0 \<le> (e - 1) div k" using assms e by (simp add: pos_imp_zdiv_nonneg_iff)
  have "nat ((e - 1) div k + 1) - 1 = nat ((e - 1) div k)" using q by simp
  moreover have "nat ((e - 1) div k) * nat k = nat ((e - 1) div k * k)"
    using q by (simp add: nat_mult_distrib)
  moreover have "nat ((e - 1) div k + 1) \<noteq> 0" using q by simp
  ultimately show ?thesis
    unfolding last_batch_def page_ending_at_def number_iter_pos [OF assms(1) e] Let_def
    using False by simp
qed

lemma not_refused: "1 \<le> k \<Longrightarrow> k \<le> sys_maxsize \<Longrightarrow> \<not> refused e k"
  by (simp add: refused_def)

lemma page_beyond:
  "int (length xs) \<le> (e - 1) div k * k \<Longrightarrow> page_ending_at xs e k = []"
  by (simp add: page_ending_at_def slice_def)

lemma with_except_closed:
  assumes "filtered \<in> {''all'', ''city'', ''none''}"
  shows "get_master_ranking_by_like_with_except db cid e k filtered =
     (if get_client_info_and_styles db cid = None then Inr []
      else if k = 0 then Inl ZeroDivisionError
      else if refused e k then Inl ValueError
      else Inr (map (\<lambda>m. make_dict db (select_tuple db m))
                  (last_batch (tier_sequence db cid filtered) e k)))"
proof (cases "get_client_info_and_styles db cid")
  case None
  then show ?thesis by (simp add: client_none_empty)
next
  case (Some info)
  obtain i n c t s where info: "info = (i, n, c, t, s)" by (cases info) auto
  note cl = Some [unfolded info]
  from assms show ?thesis
    by (auto simp add: get_master_ranking_by_like_with_except_def request_of_def
        tier_sequence_def cl
        get_master_ranking_by_like_all_closed [OF cl]
        get_master_ranking_by_like_city_closed [OF cl]
        get_master_ranking_by_like_none_closed [OF cl])
qed

lemma tier_sequence_none:
  "get_client_info_and_styles db cid = None \<Longrightarrow> tier_sequence db cid filtered = []"
  by (simp add: tier_sequence_def)

lemma tier_page:
  assumes "filtered \<in> {''all'', ''city'', ''none''}" "1 \<le> k" "k \<le> sys_maxsize" "0 \<le> e"
  shows "get_master_ranking_by_like_with_except db cid e k filtered =
     Inr (map (\<lambda>m. make_dict db (select_tuple db m))
            (page_ending_at (tier_sequence db cid filtered) e k))"
proof (cases "get_client_info_and_styles db cid = None")
  case True
  then show ?thesis
    by (simp add: client_none_empty tier_sequence_none page_ending_at_def slice_def)
next
  case False
  with assms show ?thesis
    by (auto simp add: with_except_closed [OF assms(1)] not_refused last_batch_page)
qed

lemma new_page:
  assumes "1 \<le> k" "k \<le> sys_maxsize" "0 \<le> e"
  shows "get_master_new_registered db now cid e k =
     Inr (map (\<lambda>m. make_dict db (select_tuple db m))
            (page_ending_at (request_new db now cid) e k))"
  using assms by (simp add: get_master_new_registered_closed not_refused last_batch_page)

lemma create_dicts_liked_succeeds:
  "\<forall>r \<in> set rows. sd (fst r) \<noteq> None \<Longrightarrow> i + length rows \<le> length fl \<Longrightarrow>
   \<exists>ds. create_dicts_liked sd fl rows i = Inr ds"
proof (induction sd fl rows i rule: create_dicts_liked.induct)
  case (1 sd fl i)
  then show ?case by simp
next
  case (2 sd fl k n c a l rest i)
  from "2.prems" obtain s where s: "sd k = Some s" by auto
  from "2.prems" have i: "i < length fl" by simp
  from "2.prems" have "\<forall>r \<in> set rest. sd (fst r) \<noteq> None" "Suc i + length rest \<le> length fl"
    by simp_all
  from "2.IH" [OF s i this] obtain ds where "create_dicts_liked sd fl rest (Suc i) = Inr ds" ..
  with s i show ?case by simp
qed

lemma photo_rows_empty: "photo_rows db k \<noteq> [] \<longleftrightarrow> k \<in> fst ` set (master_photos_table db)"
proof -
  have "[p. (m, p) \<leftarrow> xs, m = k] \<noteq> [] \<longleftrightarrow> k \<in> fst ` set xs" for xs :: "(int \<times> string) list"
    by (induction xs) auto
  moreover have "sort_key f ys = [] \<longleftrightarrow> ys = []" for f :: "string \<Rightarrow> int" and ys
    by (metis length_0_conv length_sort)
  ultimately show ?thesis by (simp add: photo_rows_def)
qed

lemma length_master_foto_list:
  "length (master_foto_list db ids) = card {k \<in> set ids. photo_rows db k \<noteq> []}"
proof -
  let ?xs = "[m. (m, p) \<leftarrow> master_photos_table db, m \<in> set ids]"
  have "set ?xs = {k \<in> set ids. photo_rows db k \<noteq> []}"
    unfolding photo_rows_empty by force
  moreover have "length (master_foto_list db ids) = card (set ?xs)"
    by (simp add: master_foto_list_def photo_group_keys_def length_remdups_card_conv)
  ultimately show ?thesis by simp
qed

lemma distinct_ids_order_by:
  "distinct (map master_id ms) \<Longrightarrow> distinct (map master_id (order_by_desc_likes db ms))"
  by (simp add: distinct_map order_by_desc_likes_def emitted_groups_def)

lemma distinct_ids_request_liked:
  "distinct (map master_id (master_table db)) \<Longrightarrow>
   distinct (map master_id (request_liked db cid))"
  unfolding request_liked_def by (intro distinct_ids_order_by distinct_map_filter)

lemma distinct_ids_page:
  assumes "distinct (map master_id ms)"
  shows "distinct (map master_id (page_ending_at ms e k))"
proof -
  have "distinct (take a (drop b (map master_id ms)))" for a b
    using assms by simp
  then show ?thesis by (simp add: page_ending_at_def slice_def take_map drop_map)
qed

lemma get_master_liked_client_closed:
  assumes "1 \<le> k" "k \<le> sys_maxsize" "1 \<le> e"
  shows "get_master_liked_client db cid e k =
     create_dicts_liked
       (styles_master_dict db (map master_id (page_ending_at (request_liked db cid) e k)))
       (master_foto_list db (map master_id (page_ending_at (request_liked db cid) e k)))
       (map (select_tuple db) (page_ending_at (request_liked db cid) e k)) 0"
proof -
  let ?rows = "map (select_tuple db) (request_liked db cid)"
  let ?n = "nat (e div k + (if e mod k \<noteq> 0 then 1 else 0))"
  have "0 \<le> (e - 1) div k" using assms by (simp add: pos_imp_zdiv_nonneg_iff)
  then have n: "?n \<noteq> 0" unfolding number_iter_pos [OF assms(1,3)] by simp
  have batch: "fetch_loop ?n k ?rows None = Inr (Some (last_batch ?rows e k))"
    using n assms by (simp add: fetch_loop_closed last_batch_def Let_def)
  have ids: "map fst (last_batch ?rows e k) = map master_id (last_batch (request_liked db cid) e k)"
    by (simp add: last_batch_map select_tuple_def comp_def)
  have "get_master_liked_client db cid e k =
      create_dicts_liked (styles_master_dict db (map fst (last_batch ?rows e k)))
       (master_foto_list db (map fst (last_batch ?rows e k))) (last_batch ?rows e k) 0"
    using assms batch by (simp add: get_master_liked_client_def number_iter_def Let_def)
  also have "\<dots> = create_dicts_liked
       (styles_master_dict db (map master_id (last_batch (request_liked db cid) e k)))
       (master_foto_list db (map master_id (last_batch (request_liked db cid) e k)))
       (map (select_tuple db) (last_batch (request_liked db cid) e k)) 0"
    unfolding ids by (simp add: last_batch_map)
  finally show ?thesis using assms by (simp add: last_batch_page)
qed

lemma liked_page:
  assumes k: "1 \<le> k" "k \<le> sys_maxsize" and e: "1 \<le> e"
    and d: "distinct (map master_id (master_table db))"
    and rows: "\<forall>m \<in> set (page_ending_at (request_liked db cid) e k).
                 style_rows db (master_id m) \<noteq> [] \<and> photo_rows db (master_id m) \<noteq> []"
  shows "\<exists>ds. get_master_liked_client db cid e k = Inr ds \<and>
           map (\<lambda>d. (d_master_id d, d_likes d)) ds =
           map (\<lambda>m. (master_id m, count_likes db (master_id m)))
             (page_ending_at (request_liked db cid) e k)"
proof -
  let ?page = "page_ending_at (request_liked db cid) e k"
  let ?ids = "map master_id ?page"
  have dist: "distinct ?ids"
    by (rule distinct_ids_page) (rule distinct_ids_request_liked [OF d])
  from rows have "{k \<in> set ?ids. photo_rows db k \<noteq> []} = set ?ids" by auto
  moreover have "card (set ?ids) = length ?ids" using dist by (rule distinct_card)
  ultimately have len: "length (master_foto_list db ?ids) = length ?ids"
    unfolding length_master_foto_list by simp
  have st: "\<forall>r \<in> set (map (select_tuple db) ?page). styles_master_dict db ?ids (fst r) \<noteq> None"
    using rows by (auto simp add: styles_master_dict_def select_tuple_def)
  from create_dicts_liked_succeeds [OF st, of 0 "master_foto_list db ?ids"] len
  obtain ds where ds: "create_dicts_liked (styles_master_dict db ?ids)
      (master_foto_list db ?ids) (map (select_tuple db) ?page) 0 = Inr ds" by auto
  then have res: "get_master_liked_client db cid e k = Inr ds"
    by (simp add: get_master_liked_client_closed [OF k e])
  from get_master_liked_client_ids [OF res] k e
  have "map (\<lambda>d. (d_master_id d, d_likes d)) ds =
      map (\<lambda>m. (master_id m, count_likes db (master_id m))) ?page"
    by (simp add: last_batch_page)
  with res show ?thesis by blast
qed

text \<open>
  C2 (as amended). The second argument of a ranking call is the end index of the page,
  not its start. For a page size \<open>k\<close> with \<open>1 \<le> k \<le> sys.maxsize\<close> and an end index
  \<open>e \<ge> 0\<close>, a tier call and the newly-registered view return the dictionaries of the
  page of size \<open>k\<close> that holds position \<open>e - 1\<close> of the ranked sequence: the slice that
  starts at \<open>((e - 1) div k) * k\<close> (the slice \<open>[e - k, e)\<close> when \<open>e\<close> is a multiple of
  \<open>k\<close>), and the empty list for \<open>e = 0\<close>. The liked view returns the providers of that
  page with their like counts for \<open>e \<ge> 1\<close>, when every provider of the page has a style
  row and a photo row. A page that starts beyond the sequence is empty, and the call
  returns the empty list, not an error. In the example store the calls with end index 10
  and page size 10 return providers 1 and 2 for the tier all and provider 3 for the tier
  none.
\<close>

theorem ranking_page_ends_at_len_index:
  "(1 \<le> k \<and> k \<le> sys_maxsize \<and> 0 \<le> e \<longrightarrow>
      (filtered \<in> {''all'', ''city'', ''none''} \<longrightarrow>
         get_master_ranking_by_like_with_except db cid e k filtered =
           Inr (map (\<lambda>m. make_dict db (select_tuple db m))
                  (page_ending_at (tier_sequence db cid filtered) e k))) \<and>
      get_master_new_registered db now cid e k =
        Inr (map (\<lambda>m. make_dict db (select_tuple db m))
               (page_ending_at (request_new db now cid) e k)) \<and>
      (1 \<le> e \<and> distinct (map master_id (master_table db)) \<and>
       (\<forall>m \<in> set (page_ending_at (request_liked db cid) e k).
          style_rows db (master_id m) \<noteq> [] \<and> photo_rows db (master_id m) \<noteq> []) \<longrightarrow>
         (\<exists>ds. get_master_liked_client db cid e k = Inr ds \<and>
            map (\<lambda>d. (d_master_id d, d_likes d)) ds =
            map (\<lambda>m. (master_id m, count_likes db (master_id m)))
              (page_ending_at (request_liked db cid) e k)))) \<and>
   (int (length xs) \<le> (e - 1) div k * k \<longrightarrow> page_ending_at xs e k = []) \<and>
   get_master_ranking_by_like_with_except berlin_db 100 10 10 ''all'' = Inr [card_P1, card_P2] \<and>
   get_master_ranking_by_like_with_except berlin_db 100 10 10 ''none'' = Inr [card_P3]"
  using tier_page [of filtered k e db cid] new_page [of k e db now cid]
    liked_page [of k e db cid] page_beyond [of xs e k] berlin_all berlin_none
  by blast

lemma page_examples:
  "(1::int) \<le> sys_maxsize"
  "map master_id (page_ending_at (tier_sequence berlin_db 100 ''all'') 2 1) = [2]"
  "map master_id (page_ending_at (request_liked berlin_db 100) 2 1) = [1]"
  "distinct (map master_id (master_table berlin_db))"
  "\<forall>m \<in> set (page_ending_at (request_liked berlin_db 100) 2 1).
     style_rows berlin_db (master_id m) \<noteq> [] \<and> photo_rows berlin_db (master_id m) \<noteq> []"
  "map (\<lambda>m. (master_id m, count_likes berlin_db (master_id m)))
     (page_ending_at (request_liked berlin_db 100) 2 1) = [(1, 3)]"
  "map (\<lambda>m. make_dict berlin_db (select_tuple berlin_db m))
     (page_ending_at (tier_sequence berlin_db 100 ''all'') 2 1) = [card_P2]"
  by code_simp+

text \<open>
  The statement above at the example store, end index 2 and page size 1: the tier all
  returns provider 2, and the liked view of requester 100 returns provider 1 with its 3
  likes.
\<close>

theorem ranking_page_ends_at_len_index_witness:
  "(1::int) \<le> 1 \<and> (1::int) \<le> sys_maxsize \<and> (0::int) \<le> 2 \<and> (1::int) \<le> 2 \<and>
   ''all'' \<in> {''all'', ''city'', ''none''} \<and>
   distinct (map master_id (master_table berlin_db)) \<and>
   map master_id (page_ending_at (request_liked berlin_db 100) 2 1) = [1] \<and>
   get_master_ranking_by_like_with_except berlin_db 100 2 1 ''all'' = Inr [card_P2] \<and>
   get_master_new_registered berlin_db 5 100 2 1 =
     Inr (map (\<lambda>m. make_dict berlin_db (select_tuple berlin_db m))
            (page_ending_at (request_new berlin_db 5 100) 2 1)) \<and>
   (\<exists>ds. get_master_liked_client berlin_db 100 2 1 = Inr ds \<and>
      map (\<lambda>d. (d_master_id d, d_likes d)) ds = [(1, 3)])"
proof -
  have h: "(1::int) \<le> 1" "(0::int) \<le> 2" "(1::int) \<le> 2"
    "''all'' \<in> {''all'', ''city'', ''none''}" by simp_all
  note inst = ranking_page_ends_at_len_index [of 1 2 "''all''" berlin_db 100 5]
  from inst h page_examples(1)
  have tier: "get_master_ranking_by_like_with_except berlin_db 100 2 1 ''all'' =
      Inr (map (\<lambda>m. make_dict berlin_db (select_tuple berlin_db m))
             (page_ending_at (tier_sequence berlin_db 100 ''all'') 2 1))"
    and new: "get_master_new_registered berlin_db 5 100 2 1 =
      Inr (map (\<lambda>m. make_dict berlin_db (select_tuple berlin_db m))
             (page_ending_at (request_new berlin_db 5 100) 2 1))"
    by blast+
  from inst h page_examples(1,4,5)
  have "\<exists>ds. get_master_liked_client berlin_db 100 2 1 = Inr ds \<and>
      map (\<lambda>d. (d_master_id d, d_likes d)) ds =
      map (\<lambda>m. (master_id m, count_likes berlin_db (master_id m)))
        (page_ending_at (request_liked berlin_db 100) 2 1)"
    by blast
  then have liked: "\<exists>ds. get_master_liked_client berlin_db 100 2 1 = Inr ds \<and>
      map (\<lambda>d. (d_master_id d, d_likes d)) ds = [(1, 3)]"
    unfolding page_examples(6) .
  from tier have tier': "get_master_ranking_by_like_with_except berlin_db 100 2 1 ''all'' = Inr [card_P2]"
    unfolding page_examples(7) .
  from h page_examples(1,3,4) tier' new liked show ?thesis by blast
qed

text \<open>
  C2 as stated fails: with 0 as the second argument and page size 10 the tier all of the
  example store returns the empty list, while the slice \<open>[0, 10)\<close> of its ranked sequence
  holds providers 1 and 2. Nor is a start offset that is no multiple of the page size
  served: the slice \<open>[1, 3)\<close> holds provider 2, and the calls with page size 2 and second
  argument 1 (the offset) or 3 (the end of that slice) return providers 1 and 2, and
  nothing. The calls with page size 0 and with page size \<open>2\<^sup>6\<^sup>3\<close> end in an exception, and
  so does the liked view with 0 as the second argument.
\<close>

theorem ranking_offset_zero_counterexample:
  "get_master_ranking_by_like_with_except berlin_db 100 0 10 ''all'' = Inr [] \<and>
   map master_id (slice (request_all berlin_db 100 ''Berlin'' TATTOO_TYPE_BOTH [0]) 0 10) = [1, 2] \<and>
   get_master_ranking_by_like_with_except berlin_db 100 1 2 ''all'' = Inr [card_P1, card_P2] \<and>
   get_master_ranking_by_like_with_except berlin_db 100 3 2 ''all'' = Inr [] \<and>
   map master_id (slice (request_all berlin_db 100 ''Berlin'' TATTOO_TYPE_BOTH [0]) 1 2) = [2] \<and>
   get_master_ranking_by_like_with_except berlin_db 100 10 0 ''all'' = Inl ZeroDivisionError \<and>
   get_master_ranking_by_like_with_except berlin_db 100 10 9223372036854775808 ''all'' =
     Inl ValueError \<and>
   get_master_liked_client berlin_db 100 0 1 = Inl UnboundLocalError"
  by code_simp

lemma ex_pair_fst: "(\<exists>x\<in>S. \<exists>u. (a, u) = x) \<longleftrightarrow> a \<in> fst ` S"
  by force

lemma all_master_client_wildcard:
  "k \<in> set (all_master_client db cid t [NUMBER_ALL_STYLES] sc) \<longleftrightarrow>
     (\<exists>m \<in> set (master_table db). k = master_id m \<and> filter_type t (tattoo_type m) \<and>
          \<not> is_blocked m \<and> sc m \<and> k \<in> fst ` set (master_styles_table db))"
  unfolding all_master_client_def by (simp add: ex_pair_fst) blast

lemma request_all_wildcard_ids:
  "master_id ` set (request_all db cid c t [NUMBER_ALL_STYLES]) =
     master_id ` {m \<in> set (master_table db). \<not> is_blocked m \<and> city m = c \<and>
                   filter_type t (tattoo_type m) \<and>
                   master_id m \<in> fst ` set (master_styles_table db)}"
proof (intro equalityI subsetI)
  fix k assume "k \<in> master_id ` set (request_all db cid c t [NUMBER_ALL_STYLES])"
  then obtain m where m: "m \<in> set (master_table db)" "k = master_id m"
    "master_id m \<in> set (all_master_client db cid t [NUMBER_ALL_STYLES] (\<lambda>m. city m = c))"
    by (auto simp add: request_all_def)
  from m(3) obtain m' where "m' \<in> set (master_table db)" "master_id m = master_id m'"
    "filter_type t (tattoo_type m')" "\<not> is_blocked m'" "city m' = c"
    "master_id m \<in> fst ` set (master_styles_table db)"
    unfolding all_master_client_wildcard by blast
  with m(2) show "k \<in> master_id ` {m \<in> set (master_table db). \<not> is_blocked m \<and> city m = c \<and>
                   filter_type t (tattoo_type m) \<and>
                   master_id m \<in> fst ` set (master_styles_table db)}"
    by (intro image_eqI [where x = m']) simp_all
next
  fix k assume "k \<in> master_id ` {m \<in> set (master_table db). \<not> is_blocked m \<and> city m = c \<and>
                   filter_type t (tattoo_type m) \<and>
                   master_id m \<in> fst ` set (master_styles_table db)}"
  then obtain m where m: "m \<in> set (master_table db)" "k = master_id m" "\<not> is_blocked m"
    "city m = c" "filter_type t (tattoo_type m)"
    "master_id m \<in> fst ` set (master_styles_table db)"
    by blast
  then have "master_id m \<in> set (all_master_client db cid t [NUMBER_ALL_STYLES] (\<lambda>m. city m = c))"
    unfolding all_master_client_wildcard by blast
  with m show "k \<in> master_id ` set (request_all db cid c t [NUMBER_ALL_STYLES])"
    by (simp add: request_all_def)
qed

text \<open>
  C3. For a requester whose aggregated style ids are exactly the wildcard, the ids of the
  tier all are the ids of the masters that are not blocked, live in the requester's city,
  pass the type filter and have at least one style row. Which styles these rows name
  does not matter: two stores with the same masters and the same set of master ids in
  the style rows give the same tier.
\<close>

theorem wildcard_requester_tier_all:
  "master_id ` set (request_all db cid c t [NUMBER_ALL_STYLES]) =
     master_id ` {m \<in> set (master_table db). \<not> is_blocked m \<and> city m = c \<and>
                   filter_type t (tattoo_type m) \<and>
                   master_id m \<in> fst ` set (master_styles_table db)} \<and>
   (master_table db' = master_table db \<and>
    fst ` set (master_styles_table db') = fst ` set (master_styles_table db) \<longrightarrow>
      master_id ` set (request_all db' cid c t [NUMBER_ALL_STYLES]) =
      master_id ` set (request_all db cid c t [NUMBER_ALL_STYLES]))"
  by (simp add: request_all_wildcard_ids)

text \<open>
  The statement above at the example store and at the store in which every provider
  holds other styles: both give providers 1 and 2.
\<close>

theorem wildcard_requester_tier_all_witness:
  "master_table restyled_db = master_table berlin_db \<and>
   fst ` set (master_styles_table restyled_db) = fst ` set (master_styles_table berlin_db) \<and>
   master_id ` set (request_all restyled_db 100 ''Berlin'' TATTOO_TYPE_BOTH [NUMBER_ALL_STYLES]) =
   master_id ` set (request_all berlin_db 100 ''Berlin'' TATTOO_TYPE_BOTH [NUMBER_ALL_STYLES]) \<and>
   map master_id (request_all berlin_db 100 ''Berlin'' TATTOO_TYPE_BOTH [NUMBER_ALL_STYLES]) = [1, 2]"
proof -
  have a: "master_table restyled_db = master_table berlin_db"
    by (simp add: restyled_db_def)
  have b: "fst ` set (master_styles_table restyled_db) = fst ` set (master_styles_table berlin_db)"
    by (auto simp add: restyled_db_def berlin_db_def)
  have c: "map master_id (request_all berlin_db 100 ''Berlin'' TATTOO_TYPE_BOTH [NUMBER_ALL_STYLES]) = [1, 2]"
    by code_simp
  from wildcard_requester_tier_all [of berlin_db 100 "''Berlin''" TATTOO_TYPE_BOTH restyled_db] a b c
  show ?thesis by blast
qed

lemma set_requests:
  "set (request_all db cid c t s) =
     {m \<in> set (master_table db). city m = c \<and> \<not> is_blocked m \<and>
        master_id m \<in> set (all_master_client db cid t s (\<lambda>m. city m = c))}"
  "set (request_city db cid c t s) =
     {m \<in> set (master_table db). city m = c \<and> \<not> is_blocked m \<and>
        master_id m \<notin> set (all_master_client db cid t s (\<lambda>m. city m = c))}"
  "set (request_none db cid c t s) =
     {m \<in> set (master_table db). city m \<noteq> c \<and> \<not> is_blocked m \<and>
        master_id m \<in> set (all_master_client db cid t s (\<lambda>m. city m \<noteq> c))}"
  by (auto simp add: request_all_def request_city_def request_none_def)

lemma same_id_same_master:
  "distinct (map master_id ms) \<Longrightarrow> a \<in> set ms \<Longrightarrow> b \<in> set ms \<Longrightarrow>
   master_id a = master_id b \<Longrightarrow> a = b"
  by (meson distinct_map inj_onD)

text \<open>
  C6. For one requester and one store (master ids being the primary key), no master id
  is in two of the three tiers: the tier city takes the in-city masters whose id is not
  in the subquery of the tier all, and the tier none takes masters of other cities.
\<close>

theorem tiers_pairwise_disjoint:
  assumes "distinct (map master_id (master_table db))"
  shows "master_id ` set (request_all db cid c t s) \<inter>
           master_id ` set (request_city db cid c t s) = {} \<and>
         master_id ` set (request_all db cid c t s) \<inter>
           master_id ` set (request_none db cid c t s) = {} \<and>
         master_id ` set (request_city db cid c t s) \<inter>
           master_id ` set (request_none db cid c t s) = {}"
proof (intro conjI)
  show "master_id ` set (request_all db cid c t s) \<inter>
           master_id ` set (request_city db cid c t s) = {}"
    unfolding set_requests by auto
next
  show "master_id ` set (request_all db cid c t s) \<inter>
           master_id ` set (request_none db cid c t s) = {}"
  proof (rule ccontr)
    assume "\<not> ?thesis"
    then obtain a b where "a \<in> set (request_all db cid c t s)"
      "b \<in> set (request_none db cid c t s)" "master_id a = master_id b" by force
    then have "a \<in> set (master_table db)" "b \<in> set (master_table db)" "city a = c" "city b \<noteq> c"
      "master_id a = master_id b" unfolding set_requests by simp_all
    with same_id_same_master [OF assms] show False by blast
  qed
next
  show "master_id ` set (request_city db cid c t s) \<inter>
           master_id ` set (request_none db cid c t s) = {}"
  proof (rule ccontr)
    assume "\<not> ?thesis"
    then obtain a b where "a \<in> set (request_city db cid c t s)"
      "b \<in> set (request_none db cid c t s)" "master_id a = master_id b" by force
    then have "a \<in> set (master_table db)" "b \<in> set (master_table db)" "city a = c" "city b \<noteq> c"
      "master_id a = master_id b" unfolding set_requests by simp_all
    with same_id_same_master [OF assms] show False by blast
  qed
qed

lemma berlin_distinct: "distinct (map master_id (master_table berlin_db))"
  by code_simp

text \<open>
  The statement above at the example store, where the tier all holds providers 1 and 2
  and the tier none provider 3.
\<close>

theorem tiers_pairwise_disjoint_witness:
  "distinct (map master_id (master_table berlin_db)) \<and>
   master_id ` set (request_all berlin_db 100 ''Berlin'' TATTOO_TYPE_BOTH [0]) \<inter>
     master_id ` set (request_city berlin_db 100 ''Berlin'' TATTOO_TYPE_BOTH [0]) = {} \<and>
   master_id ` set (request_all berlin_db 100 ''Berlin'' TATTOO_TYPE_BOTH [0]) \<inter>
     master_id ` set (request_none berlin_db 100 ''Berlin'' TATTOO_TYPE_BOTH [0]) = {} \<and>
   master_id ` set (request_city berlin_db 100 ''Berlin'' TATTOO_TYPE_BOTH [0]) \<inter>
     master_id ` set (request_none berlin_db 100 ''Berlin'' TATTOO_TYPE_BOTH [0]) = {} \<and>
   map master_id (request_all berlin_db 100 ''Berlin'' TATTOO_TYPE_BOTH [0]) = [1, 2] \<and>
   map master_id (request_none berlin_db 100 ''Berlin'' TATTOO_TYPE_BOTH [0]) = [3]"
proof -
  have "map master_id (request_all berlin_db 100 ''Berlin'' TATTOO_TYPE_BOTH [0]) = [1, 2]"
    "map master_id (request_none berlin_db 100 ''Berlin'' TATTOO_TYPE_BOTH [0]) = [3]"
    by code_simp+
  with tiers_pairwise_disjoint [OF berlin_distinct, of 100 "''Berlin''" TATTOO_TYPE_BOTH "[0]"]
    berlin_distinct
  show ?thesis by blast
qed

lemma requests_not_blocked:
  "set (request_all db cid c t s) \<subseteq> {m \<in> set (master_table db). \<not> is_blocked m}"
  "set (request_city db cid c t s) \<subseteq> {m \<in> set (master_table db). \<not> is_blocked m}"
  "set (request_none db cid c t s) \<subseteq> {m \<in> set (master_table db). \<not> is_blocked m}"
  "set (request_liked db cid) \<subseteq> {m \<in> set (master_table db). \<not> is_blocked m}"
  "set (request_new db now cid) \<subseteq> {m \<in> set (master_table db). \<not> is_blocked m}"
  by (auto simp add: request_all_def request_city_def request_none_def request_liked_def
      request_new_def Let_def)

lemma request_of_not_blocked:
  "set (request_of db cid c t s filtered) \<subseteq> {m \<in> set (master_table db). \<not> is_blocked m}"
  unfolding request_of_def using requests_not_blocked(1-3) [of db cid c t s] by simp

lemma batch_ids_not_blocked:
  assumes "set ms \<subseteq> {m \<in> set (master_table db). \<not> is_blocked m}"
  shows "set (map master_id (last_batch ms e k)) \<subseteq>
           master_id ` {m \<in> set (master_table db). \<not> is_blocked m}"
  using assms set_last_batch [of ms e k] by auto

lemma tier_ids_not_blocked:
  assumes "get_master_ranking_by_like_with_except db cid e k filtered = Inr ds"
  shows "set (map d_master_id ds) \<subseteq> master_id ` {m \<in> set (master_table db). \<not> is_blocked m}"
proof (cases "filtered \<in> {''all'', ''city'', ''none''}")
  case False
  with assms show ?thesis by (simp add: get_master_ranking_by_like_with_except_def)
next
  case True
  show ?thesis
  proof (cases "get_client_info_and_styles db cid")
    case None
    from client_none_empty [OF None, of e k filtered] assms show ?thesis by simp
  next
    case (Some info)
    obtain i n c t s where info: "info = (i, n, c, t, s)" by (cases info) auto
    from Some info have seq: "tier_sequence db cid filtered = request_of db cid c t s filtered"
      by (simp add: tier_sequence_def)
    from assms Some have "map d_master_id ds =
        map master_id (last_batch (request_of db cid c t s filtered) e k)"
      by (auto simp add: with_except_closed [OF True] seq comp_def split: if_splits)
    with batch_ids_not_blocked [OF request_of_not_blocked, of db cid c t s filtered e k]
    show ?thesis by simp
  qed
qed

lemma liked_ids_not_blocked:
  assumes "get_master_liked_client db cid e k = Inr ds"
  shows "set (map d_master_id ds) \<subseteq> master_id ` {m \<in> set (master_table db). \<not> is_blocked m}"
proof -
  have "map fst (map (\<lambda>d. (d_master_id d, d_likes d)) ds) =
      map fst (map (\<lambda>m. (master_id m, count_likes db (master_id m)))
        (last_batch (request_liked db cid) e k))"
    by (simp only: get_master_liked_client_ids [OF assms])
  then have "map d_master_id ds = map master_id (last_batch (request_liked db cid) e k)"
    by (simp add: comp_def)
  with batch_ids_not_blocked [OF requests_not_blocked(4), of db cid e k]
  show ?thesis by simp
qed

lemma new_ids_not_blocked:
  assumes "get_master_new_registered db now cid e k = Inr ds"
  shows "set (map d_master_id ds) \<subseteq> master_id ` {m \<in> set (master_table db). \<not> is_blocked m}"
proof -
  from assms have "map d_master_id ds = map master_id (last_batch (request_new db now cid) e k)"
    by (auto simp add: get_master_new_registered_closed comp_def split: if_splits)
  with batch_ids_not_blocked [OF requests_not_blocked(5), of db now cid e k]
  show ?thesis by simp
qed

text \<open>
  C4. A master whose blocked flag is set is in no list that a ranking call returns, for
  the three tiers and unknown tier tokens, the liked view and the newly-registered view
  (master ids being the primary key of the table).
\<close>

theorem blocked_provider_never_ranked:
  assumes "distinct (map master_id (master_table db))"
    and "m \<in> set (master_table db)" and "is_blocked m"
  shows "(get_master_ranking_by_like_with_except db cid e k filtered = Inr ds \<or>
          get_master_liked_client db cid e k = Inr ds \<or>
          get_master_new_registered db now cid e k = Inr ds)
         \<longrightarrow> master_id m \<notin> d_master_id ` set ds"
proof
  assume "get_master_ranking_by_like_with_except db cid e k filtered = Inr ds \<or>
          get_master_liked_client db cid e k = Inr ds \<or>
          get_master_new_registered db now cid e k = Inr ds"
  then have sub: "set (map d_master_id ds) \<subseteq>
      master_id ` {m \<in> set (master_table db). \<not> is_blocked m}"
    using tier_ids_not_blocked liked_ids_not_blocked new_ids_not_blocked by blast
  show "master_id m \<notin> d_master_id ` set ds"
  proof
    assume "master_id m \<in> d_master_id ` set ds"
    with sub obtain m' where "m' \<in> set (master_table db)" "\<not> is_blocked m'"
      "master_id m = master_id m'" by auto
    with same_id_same_master [OF assms(1) assms(2)] assms(3) show False by blast
  qed
qed

text \<open>
  The statement above at the example store with provider 1 blocked: the tier all
  returns provider 2 only.
\<close>

theorem blocked_provider_never_ranked_witness:
  "distinct (map master_id (master_table blocked_db)) \<and>
   blocked_P1 \<in> set (master_table blocked_db) \<and> is_blocked blocked_P1 \<and>
   get_master_ranking_by_like_with_except blocked_db 100 10 10 ''all'' = Inr [card_P2] \<and>
   master_id blocked_P1 \<notin> d_master_id ` set [card_P2]"
proof -
  have d: "distinct (map master_id (master_table blocked_db))" by code_simp
  have m: "blocked_P1 \<in> set (master_table blocked_db)" by (simp add: blocked_db_def)
  have b: "is_blocked blocked_P1" by (simp add: blocked_P1_def)
  have r: "get_master_ranking_by_like_with_except blocked_db 100 10 10 ''all'' = Inr [card_P2]"
    by code_simp
  from blocked_provider_never_ranked [OF d m b, of 100 10 10 "''all''" "[card_P2]"] r d m b
  show ?thesis by blast
qed

lemma client_join_empty:
  "cid \<notin> client_id ` set (client_table db) \<or> cid \<notin> fst ` set (client_styles_table db) \<Longrightarrow>
   client_join db cid = []"
  unfolding client_join_def by (force simp add: image_iff)

lemma missing_client_none:
  "cid \<notin> client_id ` set (client_table db) \<or> cid \<notin> fst ` set (client_styles_table db) \<Longrightarrow>
   get_client_info_and_styles db cid = None"
  by (simp add: get_client_info_and_styles_def client_join_empty)

text \<open>
  C9. When no client row has the given id, the dispatcher returns the empty list, for
  every tier token (known or not), every \<open>len_index\<close> and every \<open>len_return\<close>, zero and
  negative values included: the lookup comes before the page arithmetic.
\<close>

theorem missing_requester_empty_page:
  "cid \<notin> client_id ` set (client_table db) \<Longrightarrow>
   get_master_ranking_by_like_with_except db cid len_index len_return filtered = Inr []"
  by (simp add: client_none_empty missing_client_none)

text \<open>
  The statement above at the example store for the absent client 999.
\<close>

theorem missing_requester_empty_page_witness:
  "999 \<notin> client_id ` set (client_table berlin_db) \<and>
   get_master_ranking_by_like_with_except berlin_db 999 10 10 ''all'' = Inr [] \<and>
   get_master_ranking_by_like_with_except berlin_db 999 (- 3) 0 ''unknown'' = Inr []"
proof -
  have "999 \<notin> client_id ` set (client_table berlin_db)" by code_simp
  with missing_requester_empty_page [of 999 berlin_db 10 10 "''all''"]
    missing_requester_empty_page [of 999 berlin_db "- 3" 0 "''unknown''"]
  show ?thesis by blast
qed

text \<open>
  C10. A client without any style row is not found by the lookup (the inner join with
  \<open>ClientStyles\<close> has no row for it), whether or not the client row exists, and the
  dispatcher returns the empty list for each of the three tiers.
\<close>

theorem requester_without_styles_empty_page:
  "cid \<notin> fst ` set (client_styles_table db) \<Longrightarrow>
   get_client_info_and_styles db cid = None \<and>
   get_master_ranking_by_like_with_except db cid len_index len_return ''all'' = Inr [] \<and>
   get_master_ranking_by_like_with_except db cid len_index len_return ''city'' = Inr [] \<and>
   get_master_ranking_by_like_with_except db cid len_index len_return ''none'' = Inr []"
  by (simp add: client_none_empty missing_client_none)

text \<open>
  The statement above at the example store for client 101, who has a client row and no
  style row.
\<close>

theorem requester_without_styles_empty_page_witness:
  "101 \<in> client_id ` set (client_table berlin_db) \<and>
   101 \<notin> fst ` set (client_styles_table berlin_db) \<and>
   get_client_info_and_styles berlin_db 101 = None \<and>
   get_master_ranking_by_like_with_except berlin_db 101 10 10 ''all'' = Inr [] \<and>
   get_master_ranking_by_like_with_except berlin_db 101 10 10 ''city'' = Inr [] \<and>
   get_master_ranking_by_like_with_except berlin_db 101 10 10 ''none'' = Inr []"
proof -
  have a: "101 \<in> client_id ` set (client_table berlin_db)" by code_simp
  have b: "101 \<notin> fst ` set (client_styles_table berlin_db)" by code_simp
  from requester_without_styles_empty_page [OF b, of 10 10] a b show ?thesis by blast
qed

lemma create_like_new:
  assumes "cid \<in> client_id ` set (client_table db)" "mid \<in> master_id ` set (master_table db)"
    "(cid, mid) \<notin> set (likes_table db)"
  shows "create_like db cid mid = (True, db\<lparr>likes_table := likes_table db @ [(cid, mid)]\<rparr>)"
  using assms by (simp add: create_like_def integrity_error_def)

lemma create_like_repeat:
  "(cid, mid) \<in> set (likes_table db) \<Longrightarrow> create_like db cid mid = (False, db)"
  by (simp add: create_like_def integrity_error_def)

lemma create_like_twice:
  "create_like (snd (create_like db cid mid)) cid mid = (False, snd (create_like db cid mid))"
  by (simp add: create_like_def integrity_error_def)

lemma create_like_keeps:
  "p \<in> set (likes_table db) \<Longrightarrow> p \<in> set (likes_table (snd (create_like db cid mid)))"
  by (simp add: create_like_def)

lemma create_like_distinct:
  "distinct (likes_table db) \<Longrightarrow> distinct (likes_table (snd (create_like db cid mid)))"
  by (simp add: create_like_def integrity_error_def)

lemma create_like_calls_keeps:
  "p \<in> set (likes_table db) \<Longrightarrow> p \<in> set (likes_table (create_like_calls db calls))"
  by (induction db calls rule: create_like_calls.induct) (simp_all add: create_like_keeps)

lemma create_like_calls_distinct:
  "distinct (likes_table db) \<Longrightarrow> distinct (likes_table (create_like_calls db calls))"
  by (induction db calls rule: create_like_calls.induct) (simp_all add: create_like_distinct)

text \<open>
  C7 (as amended). When the requester and the provider exist and the pair has no like
  row, \<open>create_like\<close> returns \<open>True\<close> and the store gains exactly that row. A second call
  with the same pair returns \<open>False\<close> and changes nothing; so does every later call for a
  pair that has a row, after any run of other calls. A run of calls never leaves two like
  rows for one pair.
\<close>

theorem create_like_once_per_pair:
  "(cid \<in> client_id ` set (client_table db) \<and> mid \<in> master_id ` set (master_table db) \<and>
    (cid, mid) \<notin> set (likes_table db) \<longrightarrow>
      create_like db cid mid = (True, db\<lparr>likes_table := likes_table db @ [(cid, mid)]\<rparr>)) \<and>
   create_like (snd (create_like db cid mid)) cid mid = (False, snd (create_like db cid mid)) \<and>
   ((cid, mid) \<in> set (likes_table db) \<longrightarrow>
      create_like (create_like_calls db calls) cid mid = (False, create_like_calls db calls)) \<and>
   (distinct (likes_table db) \<longrightarrow> distinct (likes_table (create_like_calls db calls)))"
  using create_like_new [of cid db mid] create_like_twice [of db cid mid]
    create_like_repeat [OF create_like_calls_keeps, of cid mid db calls]
    create_like_calls_distinct [of db calls]
  by simp

lemma example_like_new:
  "100 \<in> client_id ` set (client_table berlin_db) \<and> 2 \<in> master_id ` set (master_table berlin_db) \<and>
   (100, 2) \<notin> set (likes_table berlin_db) \<and> distinct (likes_table berlin_db)"
  by code_simp

text \<open>
  The statement above at the example store: requester 100 likes provider 2 for the first
  time, and likes provider 1 again after three other calls.
\<close>

theorem create_like_once_per_pair_witness:
  "100 \<in> client_id ` set (client_table berlin_db) \<and> 2 \<in> master_id ` set (master_table berlin_db) \<and>
   (100, 2) \<notin> set (likes_table berlin_db) \<and>
   create_like berlin_db 100 2 =
     (True, berlin_db\<lparr>likes_table := likes_table berlin_db @ [(100, 2)]\<rparr>) \<and>
   (100, 1) \<in> set (likes_table berlin_db) \<and>
   create_like (create_like_calls berlin_db [(100, 2), (100, 2), (101, 3)]) 100 1 =
     (False, create_like_calls berlin_db [(100, 2), (100, 2), (101, 3)]) \<and>
   distinct (likes_table berlin_db) \<and>
   distinct (likes_table (create_like_calls berlin_db [(100, 2), (100, 2), (101, 3)]))"
proof -
  have l: "(100, 1) \<in> set (likes_table berlin_db)" by code_simp
  from create_like_once_per_pair [of 100 berlin_db 2]
    create_like_once_per_pair [of 100 berlin_db 1 "[(100, 2), (100, 2), (101, 3)]"]
    example_like_new l
  show ?thesis by blast
qed

text \<open>
  C7 as stated fails: for the pair (999, 1), which has no like row in the example store,
  \<open>create_like\<close> returns \<open>False\<close>, since no client 999 exists and the foreign key of the
  like row raises the \<open>IntegrityError\<close> that the function answers with \<open>False\<close>.
\<close>

theorem create_like_missing_requester_counterexample:
  "create_like berlin_db 999 1 = (False, berlin_db) \<and> (999, 1) \<notin> set (likes_table berlin_db)"
proof -
  have "999 \<notin> set (map client_id (client_table berlin_db))" by code_simp
  moreover have "(999, 1) \<notin> set (likes_table berlin_db)" by code_simp
  ultimately show ?thesis by (simp add: create_like_def integrity_error_def)
qed

lemma create_dicts_liked_ok:
  "create_dicts_liked sd fl rows i = Inr ds \<Longrightarrow>
   (\<forall>r \<in> set rows. sd (fst r) \<noteq> None) \<and> (rows \<noteq> [] \<longrightarrow> i + length rows \<le> length fl)"
proof (induction sd fl rows i arbitrary: ds rule: create_dicts_liked.induct)
  case (1 sd fl i)
  then show ?case by simp
next
  case (2 sd fl k n c a l rest i)
  from "2.prems" obtain s where s: "sd k = Some s" by (auto split: option.splits)
  from "2.prems" s have i: "i < length fl" by (auto split: if_splits)
  from "2.prems" s i obtain ds' where
    ds': "create_dicts_liked sd fl rest (Suc i) = Inr ds'" by (auto split: sum.splits)
  from "2.IH" [OF s i ds'] s i show ?case by (cases rest) auto
qed

lemma all_have_photos:
  assumes "length ids \<le> length (master_foto_list db ids)" and "k \<in> set ids"
  shows "photo_rows db k \<noteq> []"
proof -
  let ?A = "{k \<in> set ids. photo_rows db k \<noteq> []}"
  have "card (set ids) \<le> length ids" by (rule card_length)
  with assms(1) have "card (set ids) \<le> card ?A" by (simp add: length_master_foto_list)
  moreover have "?A \<subseteq> set ids" by blast
  ultimately have "?A = set ids" by (intro card_seteq) simp_all
  with assms(2) show ?thesis by blast
qed

lemma liked_view_complete_rows:
  assumes "get_master_liked_client db cid e k = Inr ds"
    and "m \<in> set (last_batch (request_liked db cid) e k)"
  shows "style_rows db (master_id m) \<noteq> [] \<and> photo_rows db (master_id m) \<noteq> []"
proof -
  let ?batch = "last_batch (request_liked db cid) e k"
  let ?ids = "map master_id ?batch"
  from create_dicts_liked_ok [OF get_master_liked_client_batch [OF assms(1)]]
  have st: "\<forall>r \<in> set (map (select_tuple db) ?batch). styles_master_dict db ?ids (fst r) \<noteq> None"
    and len: "map (select_tuple db) ?batch \<noteq> [] \<longrightarrow>
      length (map (select_tuple db) ?batch) \<le> length (master_foto_list db ?ids)"
    by simp_all
  from assms(2) have id: "master_id m \<in> set ?ids" by simp
  from st assms(2) have "styles_master_dict db ?ids (master_id m) \<noteq> None"
    by (force simp add: select_tuple_def)
  then have "style_rows db (master_id m) \<noteq> []"
    unfolding styles_master_dict_def by (auto split: if_splits)
  moreover from len assms(2) have "length ?ids \<le> length (master_foto_list db ?ids)" by auto
  from all_have_photos [OF this id] have "photo_rows db (master_id m) \<noteq> []" .
  ultimately show ?thesis by simp
qed

text \<open>
  C8 (where the code departs from the claim). In the liked view a master of the fetched
  batch that has no style row or no photo row makes the whole call fail: the style names
  are read with \<open>style_master_dict[id]\<close> and the photos with \<open>master_foto_list[index]\<close>,
  and the exception is caught and logged, so the caller gets \<open>None\<close> instead of a
  dictionary with an empty list. The tier and newly-registered views go through
  \<open>get_master_list_photos\<close> and \<open>get_master_list_selected_styles\<close>, which give the empty
  list (lemma \<open>enrich_closed\<close>).
\<close>

theorem liked_view_fails_without_styles_or_photos:
  assumes "m \<in> set (last_batch (request_liked db cid) len_index len_return)"
    and "style_rows db (master_id m) = [] \<or> photo_rows db (master_id m) = []"
  shows "\<exists>err. get_master_liked_client db cid len_index len_return = Inl err"
proof (cases "get_master_liked_client db cid len_index len_return")
  case (Inl err)
  then show ?thesis by blast
next
  case (Inr ds)
  from liked_view_complete_rows [OF Inr assms(1)] assms(2) show ?thesis by blast
qed

lemma liked_examples:
  "hd example_masters \<in> set (last_batch (request_liked berlin_db 100) 1 1)"
  "photo_rows berlin_db (master_id (hd example_masters)) = []"
  "get_master_liked_client berlin_db 100 1 1 = Inl IndexError"
  "get_master_liked_client no_styles_db 100 1 1 = Inl KeyError"
  "get_master_ranking_by_like_with_except berlin_db 100 10 10 ''none'' = Inr [card_P3]"
  "d_photo_path card_P3 = []"
  by code_simp+

text \<open>
  The statement above at the example store: provider 3, liked by requester 100, has no
  photo row; the liked view fails with \<open>IndexError\<close> (and with \<open>KeyError\<close> in the store
  without style rows), while the tier none returns provider 3 with an empty photo list.
\<close>

theorem liked_view_fails_without_styles_or_photos_witness:
  "hd example_masters \<in> set (last_batch (request_liked berlin_db 100) 1 1) \<and>
   photo_rows berlin_db (master_id (hd example_masters)) = [] \<and>
   (\<exists>err. get_master_liked_client berlin_db 100 1 1 = Inl err) \<and>
   get_master_liked_client berlin_db 100 1 1 = Inl IndexError \<and>
   get_master_liked_client no_styles_db 100 1 1 = Inl KeyError \<and>
   get_master_ranking_by_like_with_except berlin_db 100 10 10 ''none'' = Inr [card_P3] \<and>
   d_photo_path card_P3 = []"
proof -
  from liked_view_fails_without_styles_or_photos [of "hd example_masters" berlin_db 100 1 1]
    liked_examples(1,2)
  have "\<exists>err. get_master_liked_client berlin_db 100 1 1 = Inl err" by blast
  with liked_examples show ?thesis by blast
qed

end
